theory Spec2Isabelle
  imports Complex_Main "HOL-Library.Word"
begin

section \<open>The cannonball of CannonWarfare2 (CannonBall.cpp)\<close>

text \<open>
  The embedding follows \<^verbatim>\<open>src/CannonWarfare/Sources/CannonBall.cpp\<close> statement by
  statement. The object is a record, each member function takes the object and returns
  the updated one, the particle manager the object holds a reference to is the list of
  the spawner requests it has received, and the system clock is an argument of the
  function that reads it.

  Numbers. A C++ \<^verbatim>\<open>float\<close> is idealised as a \<^typ>\<open>real\<close>: comparisons, assignments
  and the branch structure are exactly the program's, arithmetic is exact where the
  program rounds, and infinities and NaN do not exist (a division by zero and an
  out-of-range conversion are written out as outcomes of their own below). An
  \<^verbatim>\<open>unsigned char\<close> is an \<^typ>\<open>8 word\<close>, a reading of the clock an \<^typ>\<open>int\<close> number of
  clock ticks.
\<close>

subsection \<open>Vectors (Maths::Vector2)\<close>

record Vector2 =
  x :: real
  y :: real

text \<open>
  The maths library (\<^verbatim>\<open>Arithmetic.h\<close>, the vector and transform types,
  \<^verbatim>\<open>LineIntersection\<close>) is absent. The spec gives the vector as a "2D float pair with
  addition, scalar/component multiplication, magnitude (GetLength), magnitude-setter
  (SetLength, rescales preserving direction), angle accessor".
\<close>

text \<open>Modelled from the spec: \<^verbatim>\<open>sqpow\<close> of \<^verbatim>\<open>Arithmetic.h\<close> is absent; the spec's drag
  formula has \<open>radius\<^sup>2\<close> where the source has \<^verbatim>\<open>sqpow(radius)\<close>.\<close>

definition sqpow :: "real \<Rightarrow> real" where
  "sqpow val = val * val"

text \<open>Modelled from the spec: \<^verbatim>\<open>clamp\<close> of \<^verbatim>\<open>Arithmetic.h\<close> is absent; the spec has
  \<^verbatim>\<open>clamp(v, 0, 1)\<close> as "clamped to [0,1]".\<close>

definition clamp :: "real \<Rightarrow> real \<Rightarrow> real \<Rightarrow> real" where
  "clamp val lo hi = (if val < lo then lo else if val > hi then hi else val)"

text \<open>Modelled from the spec: the operators of \<^verbatim>\<open>Maths::Vector2\<close> are absent; the spec's
  "addition" (\<^verbatim>\<open>+\<close>), "scalar multiplication" (\<^verbatim>\<open>*\<close> with a \<^verbatim>\<open>float\<close>), the unary minus
  and the zero vector \<^verbatim>\<open>{}\<close>.\<close>

definition vec_add :: "Vector2 \<Rightarrow> Vector2 \<Rightarrow> Vector2" where
  "vec_add u w = \<lparr>x = x u + x w, y = y u + y w\<rparr>"

definition vec_scale :: "Vector2 \<Rightarrow> real \<Rightarrow> Vector2" where
  "vec_scale u k = \<lparr>x = x u * k, y = y u * k\<rparr>"

definition vec_neg :: "Vector2 \<Rightarrow> Vector2" where
  "vec_neg u = \<lparr>x = - x u, y = - y u\<rparr>"

definition vec_zero :: Vector2 where
  "vec_zero = \<lparr>x = 0, y = 0\<rparr>"

text \<open>Modelled from the spec: \<^verbatim>\<open>Vector2::GetLength\<close> is absent; the spec's "magnitude".\<close>

definition GetLength :: "Vector2 \<Rightarrow> real" where
  "GetLength u = sqrt (sqpow (x u) + sqpow (y u))"

text \<open>Modelled from the spec: \<^verbatim>\<open>Vector2::SetLength\<close> is absent; the spec's
  "magnitude-setter (rescales preserving direction)", as the unit vector times the new
  length. It divides by the current length: the program calls it only under the guard
  \<^verbatim>\<open>GetLength() > 10\<close>, so the quotient by a zero length (NaN in the program, 0 in HOL) is
  never taken from \<^verbatim>\<open>Update\<close>.\<close>

definition SetLength :: "Vector2 \<Rightarrow> real \<Rightarrow> Vector2" where
  "SetLength u len = vec_scale \<lparr>x = x u / GetLength u, y = y u / GetLength u\<rparr> len"

subsection \<open>Transform (Maths::Transform2D)\<close>

record Transform2D =
  position :: Vector2
  velocity :: Vector2
  acceleration :: Vector2
  rotateForwards :: bool

text \<open>Modelled from the spec: \<^verbatim>\<open>Transform2D::Update\<close> is absent. The spec: "integrate
  transform via semi-implicit Euler (velocity += acceleration*dt; position += velocity*dt)",
  the acceleration being left as it is.\<close>

definition Transform_Update :: "real \<Rightarrow> Transform2D \<Rightarrow> Transform2D" where
  "Transform_Update deltaTime t =
     (let v = vec_add (velocity t) (vec_scale (acceleration t) deltaTime)
      in t\<lparr>velocity := v, position := vec_add (position t) (vec_scale v deltaTime)\<rparr>)"

subsection \<open>Colours and particle spawners\<close>

text \<open>raylib's \<^verbatim>\<open>Color\<close>, four \<^verbatim>\<open>unsigned char\<close> channels, and the two of its colours
  that the source names.\<close>

record Color =
  r :: "8 word"
  g :: "8 word"
  b :: "8 word"
  a :: "8 word"

definition WHITE :: Color where
  "WHITE = \<lparr>r = 255, g = 255, b = 255, a = 255\<rparr>"

definition ORANGE :: Color where
  "ORANGE = \<lparr>r = 255, g = 161, b = 0, a = 255\<rparr>"

text \<open>The enumeration of particle shapes is declared in the absent
  \<^verbatim>\<open>ParticleManager.h\<close>; the source names one enumerator.\<close>

datatype ParticleShapes = POLYGON

text \<open>Modelled from the spec: \<^verbatim>\<open>ParticleManager.h\<close> is absent. The parameter record is
  "shape, origin, angular range, speed range, two unused/reserved range pairs, size range,
  lifetime range, color", in the order of the aggregate initialisers of the source.\<close>

record SpawnerParticleParams =
  shape :: ParticleShapes
  origin :: Vector2
  minAngle :: real
  maxAngle :: real
  minSpeed :: real
  maxSpeed :: real
  minReservedA :: real
  maxReservedA :: real
  minReservedB :: real
  maxReservedB :: real
  minSize :: real
  maxSize :: real
  minLifetime :: real
  maxLifetime :: real
  particleColor :: Color

text \<open>Modelled from the spec: a spawner request, the four arguments of
  \<^verbatim>\<open>CreateSpawner\<close>.\<close>

record Spawner =
  spawnCount :: int
  duration :: real
  params :: SpawnerParticleParams
  attached :: bool

type_synonym ParticleManager = "Spawner list"

text \<open>Modelled from the spec: \<^verbatim>\<open>ParticleManager::CreateSpawner\<close> is absent; the emitter
  "accepts CreateSpawner(count, duration, paramsRecord, optionalAttachedTransform)" and is
  otherwise a black box. The manager is the list of the requests made, in order;
  \<open>attached\<close> says whether the pointer to the cannonball's transform was passed.\<close>

definition CreateSpawner ::
  "int \<Rightarrow> real \<Rightarrow> SpawnerParticleParams \<Rightarrow> bool \<Rightarrow> ParticleManager \<Rightarrow> ParticleManager" where
  "CreateSpawner n d p att pm = pm @ [\<lparr>spawnCount = n, duration = d, params = p, attached = att\<rparr>]"

subsection \<open>What the absent headers declare\<close>

text \<open>
  \<^verbatim>\<open>PhysicsConstants.h\<close> and the maths library are absent: their constants, the tick
  length of \<^verbatim>\<open>std::chrono::system_clock\<close> and \<^verbatim>\<open>LineIntersection\<close> are parameters of
  the model.
\<close>

record env =
  GRAVITY :: real
  PIXEL_SCALE :: real
  AIR_DENSITY :: real
  SPHERE_DRAG_COEFF :: real
  ticksPerMillisecond :: int
  LineIntersection :: "Vector2 \<Rightarrow> Vector2 \<Rightarrow> Vector2 \<Rightarrow> Vector2 \<Rightarrow> Vector2"

subsection \<open>The object\<close>

text \<open>
  The members that \<^verbatim>\<open>CannonBall.cpp\<close> reads and writes. Those the constructor does not
  set (\<open>radius\<close>, \<open>elasticity\<close>, \<open>landed\<close>, \<open>showTrajectory\<close>, \<open>trajectoryAlpha\<close>,
  \<open>destroyTimer\<close>, \<open>destroyDuration\<close>, \<open>color\<close>, the end of the trajectory) have their
  initial values from the class declaration, which is absent.
\<close>

record CannonBall =
  particleManager :: ParticleManager
  groundHeight :: real
  transform :: Transform2D
  radius :: real
  elasticity :: real
  landed :: bool
  showTrajectory :: bool
  trajectoryAlpha :: real
  startPos :: Vector2
  startV :: Vector2
  endPos :: Vector2
  endV :: Vector2
  controlPoint :: Vector2
  startTime :: int
  endTime :: int
  airTime :: real
  destroyTimer :: real
  destroyDuration :: real
  color :: Color

text \<open>
  The constructor (lines 11-35). \<open>members\<close> is the object as the default member
  initialisers of the absent class declaration leave it, \<open>now\<close> the reading of the
  system clock, \<open>pm\<close> the particle manager passed by reference.
\<close>

definition smokeParams :: "Vector2 \<Rightarrow> SpawnerParticleParams" where
  "smokeParams pos =
     \<lparr>shape = POLYGON, origin = pos,
      minAngle = - pi, maxAngle = 0,
      minSpeed = 5, maxSpeed = 20,
      minReservedA = 0, maxReservedA = 0,
      minReservedB = 0, maxReservedB = 0,
      minSize = 20, maxSize = 35,
      minLifetime = 0.05, maxLifetime = 0.2,
      particleColor = ORANGE\<rparr>"

definition new_CannonBall ::
  "env \<Rightarrow> CannonBall \<Rightarrow> int \<Rightarrow> ParticleManager \<Rightarrow> Vector2 \<Rightarrow> Vector2 \<Rightarrow> real \<Rightarrow> real \<Rightarrow> CannonBall" where
  "new_CannonBall e members now pm startPosition startVelocity predictedAirTime gh =
     members
       \<lparr>particleManager := CreateSpawner 1 predictedAirTime (smokeParams startPosition) True pm,
        groundHeight := gh,
        transform := (transform members)
          \<lparr>rotateForwards := True, position := startPosition, velocity := startVelocity,
           acceleration := \<lparr>x = 0, y = GRAVITY e\<rparr>\<rparr>,
        startPos := startPosition,
        startV := startVelocity,
        startTime := now\<rparr>"


text \<open>
  \<^verbatim>\<open>UpdateTrajectory\<close> (lines 43-50). \<^verbatim>\<open>duration_cast<milliseconds>\<close> truncates the
  difference of the two clock readings towards zero.
\<close>

definition trunc_div :: "int \<Rightarrow> int \<Rightarrow> int" where
  "trunc_div n d = (if 0 \<le> n then n div d else - ((- n) div d))"

definition UpdateTrajectory :: "env \<Rightarrow> int \<Rightarrow> CannonBall \<Rightarrow> CannonBall" where
  "UpdateTrajectory e now s =
     s\<lparr>endTime := now,
       airTime := real_of_int (trunc_div (now - startTime s) (ticksPerMillisecond e)) / 1000,
       endPos := position (transform s),
       endV := velocity (transform s),
       controlPoint := LineIntersection e (startPos s) (startV s)
                         (position (transform s)) (vec_neg (velocity (transform s)))\<rparr>"

subsection \<open>Update (lines 52-113)\<close>

text \<open>Lines 54-56: the trajectory's alpha.\<close>

definition Update_alphas :: "real \<Rightarrow> CannonBall \<Rightarrow> CannonBall" where
  "Update_alphas deltaTime s =
     (if showTrajectory s \<and> trajectoryAlpha s < 1
        then s\<lparr>trajectoryAlpha := clamp (trajectoryAlpha s + deltaTime) 0 1\<rparr>
      else if \<not> showTrajectory s \<and> trajectoryAlpha s > 0
        then s\<lparr>trajectoryAlpha := clamp (trajectoryAlpha s - deltaTime) 0 1\<rparr>
      else s)"

definition landingParams :: "Vector2 \<Rightarrow> SpawnerParticleParams" where
  "landingParams org =
     \<lparr>shape = POLYGON, origin = org,
      minAngle = - pi / 4, maxAngle = pi + pi / 2,
      minSpeed = 250, maxSpeed = 500,
      minReservedA = 0, maxReservedA = 0,
      minReservedB = 0, maxReservedB = 0,
      minSize = 20, maxSize = 35,
      minLifetime = 0.05, maxLifetime = 0.2,
      particleColor = WHITE\<rparr>"

text \<open>Lines 69-74: the first contact.\<close>

definition finalize_trajectory :: "env \<Rightarrow> int \<Rightarrow> CannonBall \<Rightarrow> CannonBall" where
  "finalize_trajectory e now s =
     (if \<not> landed s then (UpdateTrajectory e now s)\<lparr>landed := True\<rparr> else s)"

text \<open>Lines 76-90: bounce or stop.\<close>

definition bounce :: "env \<Rightarrow> CannonBall \<Rightarrow> CannonBall" where
  "bounce e s =
     (let t = transform s;
          p1 = (position t)\<lparr>y := groundHeight s - radius s * PIXEL_SCALE e - 0.01\<rparr>;
          v1 = (velocity t)\<lparr>y := y (velocity t) * (- 1)\<rparr>;
          v2 = SetLength v1 (GetLength v1 * elasticity s)
      in s\<lparr>transform := t\<lparr>position := p1, velocity := v2\<rparr>\<rparr>)"

definition stop_movement :: "env \<Rightarrow> CannonBall \<Rightarrow> CannonBall" where
  "stop_movement e s =
     (let t = transform s;
          p1 = (position t)\<lparr>y := groundHeight s - radius s * PIXEL_SCALE e\<rparr>
      in s\<lparr>transform := t\<lparr>position := p1, velocity := vec_zero, acceleration := vec_zero\<rparr>\<rparr>)"

text \<open>Lines 92-104: the landing particles.\<close>

definition play_landing_particles :: "env \<Rightarrow> CannonBall \<Rightarrow> CannonBall" where
  "play_landing_particles e s =
     s\<lparr>particleManager :=
         CreateSpawner 1 0.1
           (landingParams (vec_add (position (transform s))
                             \<lparr>x = 0, y = radius s * PIXEL_SCALE e * 1.5\<rparr>))
           False (particleManager s)\<rparr>"

text \<open>Lines 58-105: above the ground, under the ground, or neither.\<close>

definition Update_motion :: "env \<Rightarrow> int \<Rightarrow> real \<Rightarrow> CannonBall \<Rightarrow> CannonBall" where
  "Update_motion e now deltaTime s =
     (if y (position (transform s)) < groundHeight s - radius s * PIXEL_SCALE e then
        (let s1 = s\<lparr>transform := Transform_Update deltaTime (transform s)\<rparr>
         in if \<not> landed s1 then UpdateTrajectory e now s1 else s1)
      else if y (position (transform s)) > groundHeight s - radius s * PIXEL_SCALE e then
        (let s1 = finalize_trajectory e now s;
             s2 = (if GetLength (velocity (transform s1)) > 10 then bounce e s1
                   else stop_movement e s1)
         in play_landing_particles e s2)
      else s)"

text \<open>
  Lines 107-112: the destroy timer. The conversion of a \<^verbatim>\<open>float\<close> to
  \<^verbatim>\<open>unsigned char\<close> truncates towards zero and is undefined when the truncated value
  is not one of 0..255; the quotient by a zero \<open>destroyDuration\<close> is an infinity or a
  NaN, which no \<^verbatim>\<open>unsigned char\<close> represents either.
\<close>

datatype undefined_behaviour = FloatToUCharOutOfRange

definition float_trunc :: "real \<Rightarrow> int" where
  "float_trunc v = (if 0 \<le> v then \<lfloor>v\<rfloor> else \<lceil>v\<rceil>)"

definition float_to_uchar :: "real \<Rightarrow> undefined_behaviour + 8 word" where
  "float_to_uchar v =
     (if 0 \<le> float_trunc v \<and> float_trunc v \<le> 255 then Inr (word_of_int (float_trunc v))
      else Inl FloatToUCharOutOfRange)"

definition Update_destroy :: "real \<Rightarrow> CannonBall \<Rightarrow> undefined_behaviour + CannonBall" where
  "Update_destroy deltaTime s =
     (if 0 \<le> destroyTimer s \<and> destroyTimer s \<le> destroyDuration s then
        (let timer = destroyTimer s - deltaTime
         in if destroyDuration s = 0 then Inl FloatToUCharOutOfRange
            else (case float_to_uchar (255 * (timer / destroyDuration s)) of
                    Inl ub \<Rightarrow> Inl ub
                  | Inr alpha \<Rightarrow> Inr (s\<lparr>destroyTimer := timer, color := (color s)\<lparr>a := alpha\<rparr>\<rparr>)))
      else Inr s)"

definition Update :: "env \<Rightarrow> int \<Rightarrow> real \<Rightarrow> CannonBall \<Rightarrow> undefined_behaviour + CannonBall" where
  "Update e now deltaTime s =
     Update_destroy deltaTime (Update_motion e now deltaTime (Update_alphas deltaTime s))"

text \<open>\<^verbatim>\<open>Destroy\<close> (lines 138-142).\<close>

definition Destroy :: "CannonBall \<Rightarrow> CannonBall" where
  "Destroy s = s\<lparr>destroyTimer := destroyDuration s\<rparr>"

subsection \<open>The host's frames\<close>

text \<open>
  The host sets the public flag \<open>showTrajectory\<close> and calls \<open>Update\<close> once per frame.
  A frame carries the flag, the clock's reading and \<open>deltaTime\<close>; a run stops at the
  first undefined conversion.
\<close>

record frame =
  frameShow :: bool
  frameNow :: int
  frameDelta :: real

fun updates :: "env \<Rightarrow> CannonBall \<Rightarrow> frame list \<Rightarrow> undefined_behaviour + CannonBall" where
  "updates e s [] = Inr s"
| "updates e s (f # fs) =
     (case Update e (frameNow f) (frameDelta f) (s\<lparr>showTrajectory := frameShow f\<rparr>) of
        Inl ub \<Rightarrow> Inl ub
      | Inr s' \<Rightarrow> updates e s' fs)"

subsection \<open>The rest state\<close>

definition at_rest :: "env \<Rightarrow> CannonBall \<Rightarrow> bool" where
  "at_rest e s \<longleftrightarrow>
     velocity (transform s) = vec_zero \<and> acceleration (transform s) = vec_zero
     \<and> y (position (transform s)) = groundHeight s - radius s * PIXEL_SCALE e"

subsection \<open>Reachable states\<close>

text \<open>
  The states of an object: the constructor makes one, and the member functions and the
  host's writes to the public flag \<open>showTrajectory\<close> lead from one to the next.
\<close>

inductive reachable :: "env \<Rightarrow> CannonBall \<Rightarrow> bool" for e :: env where
  constructed:
    "reachable e (new_CannonBall e members now pm startPosition startVelocity predictedAirTime gh)"
| updated: "reachable e s \<Longrightarrow> Update e now deltaTime s = Inr s' \<Longrightarrow> reachable e s'"
| destroyed: "reachable e s \<Longrightarrow> reachable e (Destroy s)"
| trajectory: "reachable e s \<Longrightarrow> reachable e (UpdateTrajectory e now s)"
| toggled: "reachable e s \<Longrightarrow> reachable e (s\<lparr>showTrajectory := shown\<rparr>)"

subsection \<open>Sample objects\<close>

text \<open>
  A concrete environment and concrete objects, on which the theorems below are exercised.
  The constants are those of the spec's scenario (radius 1, scale 1, ground height 100,
  gravity 98, elasticity 0.5); the clock ticks in nanoseconds.
\<close>

text \<open>Modelled from the spec: \<^verbatim>\<open>LineIntersection\<close> is absent; "given two points and two
  direction vectors, return the point where the two infinite rays intersect". For parallel
  directions the spec leaves the result open; here the quotient by zero is HOL's 0 and the
  result is the first point. It is the sample environment's value of the parameter
  \<open>LineIntersection\<close>: the general theorems hold for any such function.\<close>

definition lineIntersection :: "Vector2 \<Rightarrow> Vector2 \<Rightarrow> Vector2 \<Rightarrow> Vector2 \<Rightarrow> Vector2" where
  "lineIntersection p1 d1 p2 d2 =
     (let denom = x d1 * y d2 - y d1 * x d2;
          t = ((x p2 - x p1) * y d2 - (y p2 - y p1) * x d2) / denom
      in vec_add p1 (vec_scale d1 t))"

definition env0 :: env where
  "env0 = \<lparr>GRAVITY = 98, PIXEL_SCALE = 1, AIR_DENSITY = 1.2, SPHERE_DRAG_COEFF = 0.47,
            ticksPerMillisecond = 1000000, LineIntersection = lineIntersection\<rparr>"

definition members0 :: CannonBall where
  "members0 =
     \<lparr>particleManager = [], groundHeight = 0,
      transform = \<lparr>position = vec_zero, velocity = vec_zero, acceleration = vec_zero,
                   rotateForwards = False\<rparr>,
      radius = 1, elasticity = 0.5, landed = False, showTrajectory = False,
      trajectoryAlpha = 0,
      startPos = vec_zero, startV = vec_zero, endPos = vec_zero, endV = vec_zero,
      controlPoint = vec_zero, startTime = 0, endTime = 0, airTime = 0,
      destroyTimer = - 1, destroyDuration = 1, color = WHITE\<rparr>"

text \<open>A ball launched from the origin that has come down under the contact height at speed 20.\<close>

definition fast_ball :: CannonBall where
  "fast_ball = (new_CannonBall env0 members0 0 [] \<lparr>x = 0, y = 0\<rparr> \<lparr>x = 12, y = - 16\<rparr> 2 100)
     \<lparr>transform := \<lparr>position = \<lparr>x = 24, y = 99.5\<rparr>, velocity = \<lparr>x = 12, y = 16\<rparr>,
                     acceleration = \<lparr>x = 0, y = 98\<rparr>, rotateForwards = True\<rparr>\<rparr>"

text \<open>What \<open>Update\<close> makes of it at clock reading 1.5 s with a frame of 1/50 s.\<close>

definition fast_ball_bounced :: CannonBall where
  "fast_ball_bounced = fast_ball
     \<lparr>particleManager := particleManager fast_ball @
        [\<lparr>spawnCount = 1, duration = 0.1,
          params = landingParams \<lparr>x = 24, y = 100.49\<rparr>, attached = False\<rparr>],
      transform := \<lparr>position = \<lparr>x = 24, y = 98.99\<rparr>, velocity = \<lparr>x = 6, y = - 8\<rparr>,
                     acceleration = \<lparr>x = 0, y = 98\<rparr>, rotateForwards = True\<rparr>,
      landed := True,
      endPos := \<lparr>x = 24, y = 99.5\<rparr>, endV := \<lparr>x = 12, y = 16\<rparr>,
      controlPoint := \<lparr>x = - (405 / 16), y = 135 / 4\<rparr>,
      endTime := 1500000000, airTime := 1.5\<rparr>"

text \<open>A ball constructed exactly on the contact height 100 - 1 * 1, moving sideways.\<close>

definition ball_on_contact :: CannonBall where
  "ball_on_contact = new_CannonBall env0 members0 0 [] \<lparr>x = 0, y = 99\<rparr> \<lparr>x = 3, y = 0\<rparr> 1 100"

text \<open>A ball that has come down under the contact height at speed 5.\<close>

definition slow_ball :: CannonBall where
  "slow_ball = (new_CannonBall env0 members0 0 [] \<lparr>x = 0, y = 0\<rparr> \<lparr>x = 3, y = - 4\<rparr> 2 100)
     \<lparr>transform := \<lparr>position = \<lparr>x = 6, y = 99.5\<rparr>, velocity = \<lparr>x = 3, y = 4\<rparr>,
                     acceleration = \<lparr>x = 0, y = 98\<rparr>, rotateForwards = True\<rparr>\<rparr>"

text \<open>What \<open>Update\<close> makes of it at clock reading 1.5 s with a frame of 1/50 s.\<close>

definition slow_ball_rest :: CannonBall where
  "slow_ball_rest = slow_ball
     \<lparr>particleManager := particleManager slow_ball @
        [\<lparr>spawnCount = 1, duration = 0.1,
          params = landingParams \<lparr>x = 6, y = 100.5\<rparr>, attached = False\<rparr>],
      transform := \<lparr>position = \<lparr>x = 6, y = 99\<rparr>, velocity = \<lparr>x = 0, y = 0\<rparr>,
                     acceleration = \<lparr>x = 0, y = 0\<rparr>, rotateForwards = True\<rparr>,
      landed := True,
      endPos := \<lparr>x = 6, y = 99.5\<rparr>, endV := \<lparr>x = 3, y = 4\<rparr>,
      controlPoint := \<lparr>x = - (549 / 16), y = 183 / 4\<rparr>,
      endTime := 1500000000, airTime := 1.5\<rparr>"

text \<open>The same ball with \<open>elasticity\<close> 0, the lower end of the spec's range, and with the
  negative \<open>elasticity\<close> -1/2, which nothing in the source excludes; and what \<open>Update\<close>
  makes of each at the same clock reading and frame.\<close>

definition dead_ball :: CannonBall where
  "dead_ball = fast_ball\<lparr>elasticity := 0\<rparr>"

definition dead_ball_bounced :: CannonBall where
  "dead_ball_bounced = fast_ball_bounced
     \<lparr>elasticity := 0,
      transform := \<lparr>position = \<lparr>x = 24, y = 98.99\<rparr>, velocity = \<lparr>x = 0, y = 0\<rparr>,
                     acceleration = \<lparr>x = 0, y = 98\<rparr>, rotateForwards = True\<rparr>\<rparr>"

definition reversed_ball :: CannonBall where
  "reversed_ball = fast_ball\<lparr>elasticity := - (1 / 2)\<rparr>"

definition reversed_ball_bounced :: CannonBall where
  "reversed_ball_bounced = fast_ball_bounced
     \<lparr>elasticity := - (1 / 2),
      transform := \<lparr>position = \<lparr>x = 24, y = 98.99\<rparr>, velocity = \<lparr>x = - 6, y = 8\<rparr>,
                     acceleration = \<lparr>x = 0, y = 98\<rparr>, rotateForwards = True\<rparr>\<rparr>"

text \<open>The bounced ball one frame of 1/50 s later: in the air again, and landed.\<close>

definition fast_ball_airborne :: CannonBall where
  "fast_ball_airborne = fast_ball_bounced
     \<lparr>transform := \<lparr>position = \<lparr>x = 603 / 25, y = 247173 / 2500\<rparr>,
                     velocity = \<lparr>x = 6, y = - (151 / 25)\<rparr>,
                     acceleration = \<lparr>x = 0, y = 98\<rparr>, rotateForwards = True\<rparr>\<rparr>"

text \<open>A ball constructed under the contact height at speed 5, and where \<open>Update\<close> leaves it.\<close>

definition sunk_ball :: CannonBall where
  "sunk_ball = new_CannonBall env0 members0 0 [] \<lparr>x = 0, y = 99.5\<rparr> \<lparr>x = 3, y = 4\<rparr> 1 100"

definition sunk_ball_rest :: CannonBall where
  "sunk_ball_rest = sunk_ball
     \<lparr>particleManager := particleManager sunk_ball @
        [\<lparr>spawnCount = 1, duration = 0.1,
          params = landingParams \<lparr>x = 0, y = 100.5\<rparr>, attached = False\<rparr>],
      transform := \<lparr>position = \<lparr>x = 0, y = 99\<rparr>, velocity = \<lparr>x = 0, y = 0\<rparr>,
                     acceleration = \<lparr>x = 0, y = 0\<rparr>, rotateForwards = True\<rparr>,
      landed := True,
      endPos := \<lparr>x = 0, y = 99.5\<rparr>, endV := \<lparr>x = 3, y = 4\<rparr>,
      controlPoint := \<lparr>x = 0, y = 99.5\<rparr>,
      endTime := 20000000, airTime := 1 / 50\<rparr>"

text \<open>The ball on the contact height during its fade, with \<open>destroyDuration = 1\<close>.\<close>

definition fading_ball :: "real \<Rightarrow> 8 word \<Rightarrow> CannonBall" where
  "fading_ball timer alpha =
     ball_on_contact\<lparr>destroyTimer := timer, color := \<lparr>r = 255, g = 255, b = 255, a = alpha\<rparr>\<rparr>"

section \<open>Properties\<close>

subsection \<open>Evaluation and frame lemmas\<close>

lemmas model_defs =
  new_CannonBall_def env0_def members0_def Update_def Update_alphas_def Update_motion_def
  Update_destroy_def CreateSpawner_def smokeParams_def vec_zero_def
  finalize_trajectory_def UpdateTrajectory_def bounce_def stop_movement_def
  play_landing_particles_def landingParams_def GetLength_def SetLength_def sqpow_def
  vec_add_def vec_scale_def vec_neg_def Transform_Update_def clamp_def float_to_uchar_def
  float_trunc_def trunc_div_def lineIntersection_def Destroy_def

lemma sqrt_400: "sqrt 400 = 20"
  by (rule real_sqrt_unique) simp_all

lemma sqrt_100: "sqrt 100 = 10"
  by (rule real_sqrt_unique) simp_all

lemma Update_fast_ball: "Update env0 1500000000 (1 / 50) fast_ball = Inr fast_ball_bounced"
  by (simp add: fast_ball_bounced_def fast_ball_def model_defs Let_def sqrt_400)

lemma Update_alphas_fields [simp]:
  "transform (Update_alphas dt s) = transform s"
  "landed (Update_alphas dt s) = landed s"
  "groundHeight (Update_alphas dt s) = groundHeight s"
  "radius (Update_alphas dt s) = radius s"
  "elasticity (Update_alphas dt s) = elasticity s"
  "particleManager (Update_alphas dt s) = particleManager s"
  "startPos (Update_alphas dt s) = startPos s"
  "startV (Update_alphas dt s) = startV s"
  "startTime (Update_alphas dt s) = startTime s"
  "endPos (Update_alphas dt s) = endPos s"
  "endV (Update_alphas dt s) = endV s"
  "endTime (Update_alphas dt s) = endTime s"
  "airTime (Update_alphas dt s) = airTime s"
  "controlPoint (Update_alphas dt s) = controlPoint s"
  "showTrajectory (Update_alphas dt s) = showTrajectory s"
  "destroyTimer (Update_alphas dt s) = destroyTimer s"
  "destroyDuration (Update_alphas dt s) = destroyDuration s"
  "color (Update_alphas dt s) = color s"
  by (simp_all add: Update_alphas_def)

lemma finalize_fields [simp]:
  "transform (finalize_trajectory e now s) = transform s"
  "landed (finalize_trajectory e now s)"
  "groundHeight (finalize_trajectory e now s) = groundHeight s"
  "radius (finalize_trajectory e now s) = radius s"
  "elasticity (finalize_trajectory e now s) = elasticity s"
  "particleManager (finalize_trajectory e now s) = particleManager s"
  by (simp_all add: finalize_trajectory_def UpdateTrajectory_def)

lemma Update_destroy_fields:
  assumes "Update_destroy dt s = Inr s'"
  shows "transform s' = transform s" "landed s' = landed s" "groundHeight s' = groundHeight s"
    "radius s' = radius s" "elasticity s' = elasticity s"
    "particleManager s' = particleManager s"
    "endPos s' = endPos s" "endV s' = endV s" "endTime s' = endTime s" "airTime s' = airTime s"
    "controlPoint s' = controlPoint s" "trajectoryAlpha s' = trajectoryAlpha s"
    "showTrajectory s' = showTrajectory s" "destroyDuration s' = destroyDuration s"
  using assms
  by (auto simp: Update_destroy_def Let_def split: if_splits sum.splits)

lemma Update_motion_under:
  assumes "y (position (transform s)) > groundHeight s - radius s * PIXEL_SCALE e"
  shows "Update_motion e now deltaTime s =
           play_landing_particles e
             (let s1 = finalize_trajectory e now s
              in if GetLength (velocity (transform s1)) > 10 then bounce e s1
                 else stop_movement e s1)"
  using assms by (simp add: Update_motion_def Let_def)

lemma sqrt_25: "sqrt 25 = 5"
  by (rule real_sqrt_unique) simp_all

lemma sqrt_9: "sqrt 9 = 3"
  by (rule real_sqrt_unique) simp_all

lemma Update_slow_ball: "Update env0 1500000000 (1 / 50) slow_ball = Inr slow_ball_rest"
  by (simp add: slow_ball_rest_def slow_ball_def model_defs Let_def sqrt_25)

lemma Update_ball_on_contact: "Update env0 now (1 / 60) ball_on_contact = Inr ball_on_contact"
  by (simp add: ball_on_contact_def model_defs)

lemma Update_motion_config [simp]:
  "groundHeight (Update_motion e now dt s) = groundHeight s"
  "radius (Update_motion e now dt s) = radius s"
  "elasticity (Update_motion e now dt s) = elasticity s"
  "startPos (Update_motion e now dt s) = startPos s"
  "startV (Update_motion e now dt s) = startV s"
  "startTime (Update_motion e now dt s) = startTime s"
  "showTrajectory (Update_motion e now dt s) = showTrajectory s"
  "trajectoryAlpha (Update_motion e now dt s) = trajectoryAlpha s"
  "destroyTimer (Update_motion e now dt s) = destroyTimer s"
  "destroyDuration (Update_motion e now dt s) = destroyDuration s"
  "color (Update_motion e now dt s) = color s"
  by (simp_all add: Update_motion_def Let_def finalize_trajectory_def UpdateTrajectory_def
      bounce_def stop_movement_def play_landing_particles_def)

lemma Update_config:
  assumes "Update e now dt s = Inr s'"
  shows "groundHeight s' = groundHeight s" "radius s' = radius s" "elasticity s' = elasticity s"
    "destroyDuration s' = destroyDuration s" "showTrajectory s' = showTrajectory s"
proof -
  have d: "Update_destroy dt (Update_motion e now dt (Update_alphas dt s)) = Inr s'"
    using assms by (simp add: Update_def)
  show "groundHeight s' = groundHeight s" "radius s' = radius s" "elasticity s' = elasticity s"
    "destroyDuration s' = destroyDuration s" "showTrajectory s' = showTrajectory s"
    using Update_destroy_fields [OF d] by simp_all
qed

lemma Update_motion_not_under:
  assumes "y (position (transform s)) = groundHeight s - radius s * PIXEL_SCALE e"
  shows "Update_motion e now deltaTime s = s"
  using assms by (simp add: Update_motion_def)

text \<open>
  What landing does to the transform, for C1, C3 and C4: either branch is a function of
  the state at the call.
\<close>

lemma Update_under_transform:
  assumes under: "y (position (transform s)) > groundHeight s - radius s * PIXEL_SCALE e"
    and ret: "Update e now deltaTime s = Inr s'"
  shows "transform s' = transform (if GetLength (velocity (transform s)) > 10 then bounce e s
                                  else stop_movement e s)"
proof -
  let ?a = "Update_alphas deltaTime s"
  let ?m = "Update_motion e now deltaTime ?a"
  have d: "Update_destroy deltaTime ?m = Inr s'"
    using ret by (simp add: Update_def)
  have under': "y (position (transform ?a)) > groundHeight ?a - radius ?a * PIXEL_SCALE e"
    using under by simp
  have "transform ?m = transform (if GetLength (velocity (transform s)) > 10 then bounce e s
                                  else stop_movement e s)"
    by (simp add: Update_motion_under [OF under'] Let_def play_landing_particles_def
        bounce_def stop_movement_def)
  with Update_destroy_fields(1) [OF d] show ?thesis by simp
qed

text \<open>
  \<open>Update\<close> returns an object whenever the destroy timer is outside the fade's range
  \<open>0 \<le> destroyTimer \<le> destroyDuration\<close>, and then leaves the timer where it was; so does
  every sequence of \<open>Update\<close> calls.
\<close>

lemma Update_returns_without_fade:
  assumes "\<not> (0 \<le> destroyTimer s \<and> destroyTimer s \<le> destroyDuration s)"
  shows "\<exists>s'. Update e now dt s = Inr s' \<and> destroyTimer s' = destroyTimer s
              \<and> destroyDuration s' = destroyDuration s"
proof -
  let ?m = "Update_motion e now dt (Update_alphas dt s)"
  have "\<not> (0 \<le> destroyTimer ?m \<and> destroyTimer ?m \<le> destroyDuration ?m)"
    using assms by simp
  then have "Update_destroy dt ?m = Inr ?m"
    unfolding Update_destroy_def by (rule if_not_P)
  then have "Update e now dt s = Inr ?m"
    by (simp add: Update_def)
  moreover have "destroyTimer ?m = destroyTimer s" "destroyDuration ?m = destroyDuration s"
    by simp_all
  ultimately show ?thesis by blast
qed

lemma updates_return_without_fade:
  assumes "\<not> (0 \<le> destroyTimer s \<and> destroyTimer s \<le> destroyDuration s)"
  shows "\<exists>s'. updates e s fs = Inr s'"
  using assms
proof (induction fs arbitrary: s)
  case Nil
  show ?case by simp
next
  case (Cons f fs)
  let ?s0 = "s\<lparr>showTrajectory := frameShow f\<rparr>"
  have "\<not> (0 \<le> destroyTimer ?s0 \<and> destroyTimer ?s0 \<le> destroyDuration ?s0)"
    using Cons.prems by simp
  from Update_returns_without_fade [OF this, of e "frameNow f" "frameDelta f"]
  obtain s1 where s1: "Update e (frameNow f) (frameDelta f) ?s0 = Inr s1"
    and keep: "destroyTimer s1 = destroyTimer s" "destroyDuration s1 = destroyDuration s"
    by auto
  from keep Cons.prems
  have "\<not> (0 \<le> destroyTimer s1 \<and> destroyTimer s1 \<le> destroyDuration s1)"
    by simp
  from Cons.IH [OF this] obtain s' where "updates e s1 fs = Inr s'" ..
  with s1 show ?case by simp
qed

subsection \<open>Ground contact\<close>

text \<open>
  C1 (as amended). For every call \<open>Update(deltaTime)\<close> made while the vertical position is
  strictly past the contact height (\<open>position.y > groundHeight - radius * PIXEL_SCALE\<close>,
  with y growing downward), the landing logic runs in that call: the object is landed
  afterwards, if it was not landed before then the trajectory snapshot is the one taken
  from the state at the call, and the transform is the one the bounce branch (speed above
  10) or the rest branch (otherwise) produces.
\<close>

theorem Update_under_ground_lands:
  assumes under: "y (position (transform s)) > groundHeight s - radius s * PIXEL_SCALE e"
    and ret: "Update e now deltaTime s = Inr s'"
  shows "landed s'
    \<and> (\<not> landed s \<longrightarrow>
          endTime s' = now \<and> endPos s' = position (transform s)
          \<and> endV s' = velocity (transform s)
          \<and> airTime s' = real_of_int (trunc_div (now - startTime s) (ticksPerMillisecond e)) / 1000
          \<and> controlPoint s' = LineIntersection e (startPos s) (startV s) (position (transform s))
                                 (vec_neg (velocity (transform s))))
    \<and> transform s' = transform (if GetLength (velocity (transform s)) > 10 then bounce e s
                                else stop_movement e s)"
proof -
  let ?a = "Update_alphas deltaTime s"
  let ?m = "Update_motion e now deltaTime ?a"
  have d: "Update_destroy deltaTime ?m = Inr s'"
    using ret by (simp add: Update_def)
  have under': "y (position (transform ?a)) > groundHeight ?a - radius ?a * PIXEL_SCALE e"
    using under by simp
  note m = Update_motion_under [OF under', of now deltaTime]
  have l: "landed ?m"
    by (simp add: m Let_def play_landing_particles_def bounce_def stop_movement_def)
  have snap: "\<not> landed s \<Longrightarrow>
          endTime ?m = now \<and> endPos ?m = position (transform s)
          \<and> endV ?m = velocity (transform s)
          \<and> airTime ?m = real_of_int (trunc_div (now - startTime s) (ticksPerMillisecond e)) / 1000
          \<and> controlPoint ?m = LineIntersection e (startPos s) (startV s) (position (transform s))
                                 (vec_neg (velocity (transform s)))"
    by (simp add: m Let_def play_landing_particles_def bounce_def stop_movement_def
        finalize_trajectory_def UpdateTrajectory_def)
  have tr: "transform ?m = transform (if GetLength (velocity (transform s)) > 10 then bounce e s
                                else stop_movement e s)"
    by (simp add: m Let_def play_landing_particles_def bounce_def stop_movement_def)
  show ?thesis
    using l snap tr Update_destroy_fields [OF d] by simp
qed

theorem Update_under_ground_lands_witness:
  "y (position (transform fast_ball)) > groundHeight fast_ball - radius fast_ball * PIXEL_SCALE env0
   \<and> Update env0 1500000000 (1 / 50) fast_ball = Inr fast_ball_bounced
   \<and> \<not> landed fast_ball
   \<and> landed fast_ball_bounced
   \<and> endTime fast_ball_bounced = 1500000000
   \<and> endPos fast_ball_bounced = \<lparr>x = 24, y = 99.5\<rparr>
   \<and> endV fast_ball_bounced = \<lparr>x = 12, y = 16\<rparr>
   \<and> airTime fast_ball_bounced = 1.5
   \<and> controlPoint fast_ball_bounced = \<lparr>x = - (405 / 16), y = 135 / 4\<rparr>
   \<and> GetLength (velocity (transform fast_ball)) > 10
   \<and> transform fast_ball_bounced = transform (bounce env0 fast_ball)"
proof -
  have under: "y (position (transform fast_ball))
                 > groundHeight fast_ball - radius fast_ball * PIXEL_SCALE env0"
    by (simp add: fast_ball_def model_defs)
  have fast: "GetLength (velocity (transform fast_ball)) > 10"
    by (simp add: fast_ball_def model_defs sqrt_400)
  have fresh: "\<not> landed fast_ball"
    by (simp add: fast_ball_def model_defs)
  have vals: "endTime fast_ball_bounced = 1500000000"
    "endPos fast_ball_bounced = \<lparr>x = 24, y = 99.5\<rparr>"
    "endV fast_ball_bounced = \<lparr>x = 12, y = 16\<rparr>"
    "airTime fast_ball_bounced = 1.5"
    "controlPoint fast_ball_bounced = \<lparr>x = - (405 / 16), y = 135 / 4\<rparr>"
    by (simp_all add: fast_ball_bounced_def)
  from Update_under_ground_lands [OF under Update_fast_ball] fast
  have "landed fast_ball_bounced
        \<and> transform fast_ball_bounced = transform (bounce env0 fast_ball)"
    by simp
  with under fast fresh vals Update_fast_ball show ?thesis
    by simp
qed

text \<open>
  The claim as the spec states it includes the frame on which \<open>position.y\<close> equals the
  contact height. On that frame neither branch of \<open>Update\<close> is taken: a ball constructed
  on the contact height is not landed, and \<open>Update\<close> returns it as it was.
\<close>

theorem Update_on_contact_height_does_not_land:
  "y (position (transform ball_on_contact))
     = groundHeight ball_on_contact - radius ball_on_contact * PIXEL_SCALE env0
   \<and> \<not> landed ball_on_contact
   \<and> Update env0 16000000 (1 / 60) ball_on_contact = Inr ball_on_contact"
  by (simp add: ball_on_contact_def model_defs)

subsection \<open>Landing particles\<close>

text \<open>
  C2 (as amended). On every call \<open>Update(deltaTime)\<close> made while the projectile is strictly
  under the contact height (\<open>position.y > groundHeight - radius * PIXEL_SCALE\<close>), exactly one
  landing burst request is appended to the particle emitter's requests: polygon shape,
  duration 0.1 s, white, its origin 1.5 * radius * PIXEL_SCALE below the position the call
  leaves. On a call made at or above the contact height no request is issued; this is every
  frame after the projectile has come to rest, since the rest branch pins it to the contact
  height.
\<close>

theorem landing_burst_only_under_ground:
  assumes ret: "Update e now deltaTime s = Inr s'"
  shows "(y (position (transform s)) > groundHeight s - radius s * PIXEL_SCALE e \<longrightarrow>
            particleManager s' = particleManager s @
              [\<lparr>spawnCount = 1, duration = 0.1,
                params = \<lparr>shape = POLYGON,
                   origin = \<lparr>x = x (position (transform s')),
                              y = y (position (transform s')) + radius s * PIXEL_SCALE e * 1.5\<rparr>,
                   minAngle = - pi / 4, maxAngle = pi + pi / 2,
                   minSpeed = 250, maxSpeed = 500,
                   minReservedA = 0, maxReservedA = 0, minReservedB = 0, maxReservedB = 0,
                   minSize = 20, maxSize = 35, minLifetime = 0.05, maxLifetime = 0.2,
                   particleColor = WHITE\<rparr>,
                attached = False\<rparr>])
       \<and> (y (position (transform s)) \<le> groundHeight s - radius s * PIXEL_SCALE e \<longrightarrow>
            particleManager s' = particleManager s)"
proof -
  let ?a = "Update_alphas deltaTime s"
  let ?m = "Update_motion e now deltaTime ?a"
  have d: "Update_destroy deltaTime ?m = Inr s'"
    using ret by (simp add: Update_def)
  note keep = Update_destroy_fields(1,6) [OF d]
  have "particleManager ?m = particleManager s @
              [\<lparr>spawnCount = 1, duration = 0.1,
                params = \<lparr>shape = POLYGON,
                   origin = \<lparr>x = x (position (transform ?m)),
                              y = y (position (transform ?m)) + radius s * PIXEL_SCALE e * 1.5\<rparr>,
                   minAngle = - pi / 4, maxAngle = pi + pi / 2,
                   minSpeed = 250, maxSpeed = 500,
                   minReservedA = 0, maxReservedA = 0, minReservedB = 0, maxReservedB = 0,
                   minSize = 20, maxSize = 35, minLifetime = 0.05, maxLifetime = 0.2,
                   particleColor = WHITE\<rparr>,
                attached = False\<rparr>]"
    if "y (position (transform s)) > groundHeight s - radius s * PIXEL_SCALE e"
    using that
    by (simp add: Update_motion_def Let_def play_landing_particles_def CreateSpawner_def
        landingParams_def vec_add_def bounce_def stop_movement_def)
  moreover have "particleManager ?m = particleManager s"
    if "y (position (transform s)) \<le> groundHeight s - radius s * PIXEL_SCALE e"
    using that
    by (simp add: Update_motion_def Let_def UpdateTrajectory_def)
  ultimately show ?thesis
    using keep by simp
qed

theorem landing_burst_only_under_ground_witness:
  "Update env0 1500000000 (1 / 50) fast_ball = Inr fast_ball_bounced
   \<and> y (position (transform fast_ball)) > groundHeight fast_ball - radius fast_ball * PIXEL_SCALE env0
   \<and> particleManager fast_ball_bounced = particleManager fast_ball @
        [\<lparr>spawnCount = 1, duration = 0.1,
          params = \<lparr>shape = POLYGON, origin = \<lparr>x = 24, y = 100.49\<rparr>,
             minAngle = - pi / 4, maxAngle = pi + pi / 2,
             minSpeed = 250, maxSpeed = 500,
             minReservedA = 0, maxReservedA = 0, minReservedB = 0, maxReservedB = 0,
             minSize = 20, maxSize = 35, minLifetime = 0.05, maxLifetime = 0.2,
             particleColor = WHITE\<rparr>,
          attached = False\<rparr>]
   \<and> Update env0 16000000 (1 / 60) ball_on_contact = Inr ball_on_contact
   \<and> y (position (transform ball_on_contact))
       \<le> groundHeight ball_on_contact - radius ball_on_contact * PIXEL_SCALE env0"
proof -
  have under: "y (position (transform fast_ball))
                 > groundHeight fast_ball - radius fast_ball * PIXEL_SCALE env0"
    by (simp add: fast_ball_def model_defs)
  have pos: "position (transform fast_ball_bounced) = \<lparr>x = 24, y = 98.99\<rparr>"
    "radius fast_ball = 1" "PIXEL_SCALE env0 = 1"
    by (simp_all add: fast_ball_bounced_def fast_ball_def model_defs)
  have on: "y (position (transform ball_on_contact))
              \<le> groundHeight ball_on_contact - radius ball_on_contact * PIXEL_SCALE env0"
    by (simp add: ball_on_contact_def model_defs)
  from landing_burst_only_under_ground [OF Update_fast_ball] under pos
  have "particleManager fast_ball_bounced = particleManager fast_ball @
        [\<lparr>spawnCount = 1, duration = 0.1,
          params = \<lparr>shape = POLYGON, origin = \<lparr>x = 24, y = 100.49\<rparr>,
             minAngle = - pi / 4, maxAngle = pi + pi / 2,
             minSpeed = 250, maxSpeed = 500,
             minReservedA = 0, maxReservedA = 0, minReservedB = 0, maxReservedB = 0,
             minSize = 20, maxSize = 35, minLifetime = 0.05, maxLifetime = 0.2,
             particleColor = WHITE\<rparr>,
          attached = False\<rparr>]"
    by simp
  with under on Update_fast_ball Update_ball_on_contact [of 16000000] show ?thesis
    by simp
qed

text \<open>
  The claim as the spec states it has a burst on every frame after the projectile has come
  to rest. The slow ball comes to rest in one call, which issues its burst; the next call
  finds it on the contact height and returns it unchanged, its list of requests included.
\<close>

theorem no_landing_burst_at_rest:
  "Update env0 1500000000 (1 / 50) slow_ball = Inr slow_ball_rest
   \<and> velocity (transform slow_ball_rest) = \<lparr>x = 0, y = 0\<rparr>
   \<and> y (position (transform slow_ball_rest))
       = groundHeight slow_ball_rest - radius slow_ball_rest * PIXEL_SCALE env0
   \<and> Update env0 1520000000 (1 / 50) slow_ball_rest = Inr slow_ball_rest
   \<and> length (particleManager slow_ball_rest) = 2"
proof -
  have "Update env0 1520000000 (1 / 50) slow_ball_rest = Inr slow_ball_rest"
    by (simp add: slow_ball_rest_def slow_ball_def model_defs)
  moreover have "velocity (transform slow_ball_rest) = \<lparr>x = 0, y = 0\<rparr>"
    "y (position (transform slow_ball_rest))
       = groundHeight slow_ball_rest - radius slow_ball_rest * PIXEL_SCALE env0"
    "length (particleManager slow_ball_rest) = 2"
    by (simp_all add: slow_ball_rest_def slow_ball_def model_defs)
  ultimately show ?thesis
    using Update_slow_ball by simp
qed

subsection \<open>The bounce\<close>

lemma GetLength_flip: "GetLength (u\<lparr>y := y u * (- 1)\<rparr>) = GetLength u"
  by (simp add: GetLength_def sqpow_def)

lemma GetLength_scale: "GetLength (vec_scale u k) = \<bar>k\<bar> * GetLength u"
proof -
  have "sqpow (x u * k) + sqpow (y u * k) = (sqpow (x u) + sqpow (y u)) * k\<^sup>2"
    by (simp add: sqpow_def power2_eq_square algebra_simps)
  then show ?thesis
    by (simp add: GetLength_def vec_scale_def real_sqrt_mult)
qed

lemma SetLength_scale:
  assumes "GetLength u \<noteq> 0"
  shows "SetLength u (GetLength u * k) = vec_scale u k"
  using assms by (simp add: SetLength_def vec_scale_def)

lemma bounce_transform:
  assumes "GetLength (velocity (transform s)) > 10"
  shows "transform (bounce e s) = (transform s)
     \<lparr>position := (position (transform s))
        \<lparr>y := groundHeight s - radius s * PIXEL_SCALE e - 0.01\<rparr>,
      velocity := \<lparr>x = x (velocity (transform s)) * elasticity s,
                   y = - (y (velocity (transform s)) * elasticity s)\<rparr>\<rparr>"
proof -
  let ?v1 = "(velocity (transform s))\<lparr>y := y (velocity (transform s)) * (- 1)\<rparr>"
  have len: "GetLength ?v1 = GetLength (velocity (transform s))"
    by (rule GetLength_flip)
  with assms have "GetLength ?v1 \<noteq> 0" by simp
  then have "SetLength ?v1 (GetLength ?v1 * elasticity s) = vec_scale ?v1 (elasticity s)"
    by (rule SetLength_scale)
  then show ?thesis
    by (simp add: bounce_def Let_def vec_scale_def)
qed

text \<open>
  C3 (as amended). For every \<open>Update\<close> call in which the bounce branch is taken (projectile
  past the contact height, speed strictly greater than 10), the vertical position is set to
  the contact height minus 0.01, the velocity is the one before the call with its vertical
  component negated, scaled by \<open>elasticity\<close>, and the speed after the call is the speed
  before it multiplied by the absolute value of \<open>elasticity\<close>. So the speed is the speed
  before multiplied by \<open>elasticity\<close> when \<open>elasticity\<close> is not negative, and the sign of the
  vertical velocity is flipped when \<open>elasticity\<close> is positive.
\<close>

theorem Update_bounce:
  assumes under: "y (position (transform s)) > groundHeight s - radius s * PIXEL_SCALE e"
    and fast: "GetLength (velocity (transform s)) > 10"
    and ret: "Update e now deltaTime s = Inr s'"
  shows "y (position (transform s')) = groundHeight s - radius s * PIXEL_SCALE e - 0.01
    \<and> x (velocity (transform s')) = x (velocity (transform s)) * elasticity s
    \<and> y (velocity (transform s')) = - (y (velocity (transform s)) * elasticity s)
    \<and> GetLength (velocity (transform s'))
        = GetLength (velocity (transform s)) * \<bar>elasticity s\<bar>
    \<and> (0 \<le> elasticity s \<longrightarrow>
          GetLength (velocity (transform s'))
            = GetLength (velocity (transform s)) * elasticity s)
    \<and> (0 < elasticity s \<longrightarrow>
          sgn (y (velocity (transform s'))) = - sgn (y (velocity (transform s))))"
proof -
  from Update_under_transform [OF under ret] fast
  have tr: "transform s' = transform (bounce e s)" by simp
  let ?v = "velocity (transform s)"
  have v': "velocity (transform s') = vec_scale (?v\<lparr>y := y ?v * (- 1)\<rparr>) (elasticity s)"
    by (simp add: tr bounce_transform [OF fast] vec_scale_def)
  have "GetLength (velocity (transform s')) = \<bar>elasticity s\<bar> * GetLength ?v"
    unfolding v' by (simp only: GetLength_scale GetLength_flip)
  then have speed: "GetLength (velocity (transform s')) = GetLength ?v * \<bar>elasticity s\<bar>"
    by (simp add: mult.commute)
  then have speed': "0 \<le> elasticity s \<Longrightarrow>
      GetLength (velocity (transform s')) = GetLength ?v * elasticity s"
    by simp
  have vx: "x (velocity (transform s')) = x ?v * elasticity s"
    by (simp add: tr bounce_transform [OF fast])
  have vy: "y (velocity (transform s')) = - (y ?v * elasticity s)"
    by (simp add: tr bounce_transform [OF fast])
  have sg: "0 < elasticity s \<Longrightarrow> sgn (y (velocity (transform s'))) = - sgn (y ?v)"
    by (simp add: vy sgn_mult)
  have py: "y (position (transform s')) = groundHeight s - radius s * PIXEL_SCALE e - 0.01"
    by (simp add: tr bounce_transform [OF fast])
  from py vx vy speed speed' sg show ?thesis by blast
qed

theorem Update_bounce_witness:
  "y (position (transform fast_ball)) > groundHeight fast_ball - radius fast_ball * PIXEL_SCALE env0
   \<and> GetLength (velocity (transform fast_ball)) = 20
   \<and> elasticity fast_ball = 0.5
   \<and> Update env0 1500000000 (1 / 50) fast_ball = Inr fast_ball_bounced
   \<and> GetLength (velocity (transform fast_ball_bounced)) = 10
   \<and> velocity (transform fast_ball) = \<lparr>x = 12, y = 16\<rparr>
   \<and> x (velocity (transform fast_ball_bounced)) = 6
   \<and> y (velocity (transform fast_ball_bounced)) = - 8
   \<and> sgn (y (velocity (transform fast_ball_bounced))) = - sgn (y (velocity (transform fast_ball)))
   \<and> y (position (transform fast_ball_bounced)) = 98.99"
proof -
  have under: "y (position (transform fast_ball))
                 > groundHeight fast_ball - radius fast_ball * PIXEL_SCALE env0"
    by (simp add: fast_ball_def model_defs)
  have len: "GetLength (velocity (transform fast_ball)) = 20"
    by (simp add: fast_ball_def model_defs sqrt_400)
  have el: "elasticity fast_ball = 0.5"
    by (simp add: fast_ball_def model_defs)
  have vals: "velocity (transform fast_ball) = \<lparr>x = 12, y = 16\<rparr>" "groundHeight fast_ball = 100"
    "radius fast_ball = 1" "PIXEL_SCALE env0 = 1"
    by (simp_all add: fast_ball_def model_defs)
  have fast: "GetLength (velocity (transform fast_ball)) > 10"
    using len by simp
  from Update_bounce [OF under fast Update_fast_ball] len el vals
  have "GetLength (velocity (transform fast_ball_bounced)) = 10
    \<and> x (velocity (transform fast_ball_bounced)) = 6
    \<and> y (velocity (transform fast_ball_bounced)) = - 8
    \<and> sgn (y (velocity (transform fast_ball_bounced))) = - sgn (y (velocity (transform fast_ball)))
    \<and> y (position (transform fast_ball_bounced)) = 98.99"
    by simp
  with under len el vals Update_fast_ball show ?thesis
    by simp
qed

text \<open>
  The claim as the spec states it is for every call that takes the bounce branch, whatever
  \<open>elasticity\<close> is. With \<open>elasticity\<close> 0, which is in the range 0..1 of the spec's data model
  and which the source does not guard against, the ball comes down at vertical velocity 16
  and leaves the call with the zero velocity: the sign of its vertical velocity is not
  flipped. With \<open>elasticity\<close> -1/2, which the source does not guard against either, the
  speed 20 becomes 10 and not 20 times -1/2.
\<close>

theorem bounce_with_degenerate_elasticity:
  "y (position (transform dead_ball)) > groundHeight dead_ball - radius dead_ball * PIXEL_SCALE env0
   \<and> GetLength (velocity (transform dead_ball)) = 20
   \<and> elasticity dead_ball = 0
   \<and> Update env0 1500000000 (1 / 50) dead_ball = Inr dead_ball_bounced
   \<and> y (velocity (transform dead_ball)) = 16
   \<and> y (velocity (transform dead_ball_bounced)) = 0
   \<and> sgn (y (velocity (transform dead_ball_bounced))) \<noteq> - sgn (y (velocity (transform dead_ball)))
   \<and> y (position (transform reversed_ball))
       > groundHeight reversed_ball - radius reversed_ball * PIXEL_SCALE env0
   \<and> GetLength (velocity (transform reversed_ball)) = 20
   \<and> elasticity reversed_ball = - (1 / 2)
   \<and> Update env0 1500000000 (1 / 50) reversed_ball = Inr reversed_ball_bounced
   \<and> GetLength (velocity (transform reversed_ball_bounced)) = 10
   \<and> GetLength (velocity (transform reversed_ball_bounced))
       \<noteq> GetLength (velocity (transform reversed_ball)) * elasticity reversed_ball"
proof -
  have dead: "Update env0 1500000000 (1 / 50) dead_ball = Inr dead_ball_bounced"
    by (simp add: dead_ball_bounced_def dead_ball_def fast_ball_bounced_def fast_ball_def
        model_defs Let_def sqrt_400)
  have dead_vals:
    "y (position (transform dead_ball)) > groundHeight dead_ball - radius dead_ball * PIXEL_SCALE env0"
    "GetLength (velocity (transform dead_ball)) = 20"
    "elasticity dead_ball = 0"
    "y (velocity (transform dead_ball)) = 16"
    "y (velocity (transform dead_ball_bounced)) = 0"
    by (simp_all add: dead_ball_bounced_def dead_ball_def fast_ball_def model_defs sqrt_400)
  have rev: "Update env0 1500000000 (1 / 50) reversed_ball = Inr reversed_ball_bounced"
    by (simp add: reversed_ball_bounced_def reversed_ball_def fast_ball_bounced_def fast_ball_def
        model_defs Let_def sqrt_400)
  have rev_vals:
    "y (position (transform reversed_ball))
       > groundHeight reversed_ball - radius reversed_ball * PIXEL_SCALE env0"
    "GetLength (velocity (transform reversed_ball)) = 20"
    "elasticity reversed_ball = - (1 / 2)"
    by (simp_all add: reversed_ball_def fast_ball_def model_defs sqrt_400)
  have rev_len: "GetLength (velocity (transform reversed_ball_bounced)) = 10"
    by (simp add: reversed_ball_bounced_def model_defs sqrt_100)
  have no_flip:
    "sgn (y (velocity (transform dead_ball_bounced))) \<noteq> - sgn (y (velocity (transform dead_ball)))"
    by (simp add: dead_vals)
  have no_speed: "GetLength (velocity (transform reversed_ball_bounced))
       \<noteq> GetLength (velocity (transform reversed_ball)) * elasticity reversed_ball"
    by (simp add: rev_len rev_vals)
  from dead dead_vals no_flip rev rev_vals rev_len no_speed show ?thesis
    by blast
qed

subsection \<open>Coming to rest\<close>

lemma Update_keeps_rest:
  assumes "at_rest e s" and "Update e now deltaTime s = Inr s'"
  shows "at_rest e s' \<and> groundHeight s' = groundHeight s \<and> radius s' = radius s"
proof -
  let ?a = "Update_alphas deltaTime s"
  have "y (position (transform ?a)) = groundHeight ?a - radius ?a * PIXEL_SCALE e"
    using assms(1) by (simp add: at_rest_def)
  then have "Update_motion e now deltaTime ?a = ?a"
    by (rule Update_motion_not_under)
  with assms(2) have d: "Update_destroy deltaTime ?a = Inr s'"
    by (simp add: Update_def)
  show ?thesis
    using assms(1) Update_destroy_fields [OF d] by (simp add: at_rest_def)
qed

lemma updates_keep_rest:
  assumes "at_rest e s" and "updates e s fs = Inr s'"
  shows "at_rest e s' \<and> groundHeight s' = groundHeight s \<and> radius s' = radius s"
  using assms
proof (induction fs arbitrary: s)
  case Nil
  then show ?case by simp
next
  case (Cons f fs)
  from Cons.prems(2) obtain s1 where
    s1: "Update e (frameNow f) (frameDelta f) (s\<lparr>showTrajectory := frameShow f\<rparr>) = Inr s1"
    and rest: "updates e s1 fs = Inr s'"
    by (auto split: sum.splits)
  have "at_rest e (s\<lparr>showTrajectory := frameShow f\<rparr>)"
    using Cons.prems(1) by (simp add: at_rest_def)
  from Update_keeps_rest [OF this s1]
  have "at_rest e s1" "groundHeight s1 = groundHeight s" "radius s1 = radius s" by simp_all
  with Cons.IH [OF _ rest] show ?case by simp
qed

text \<open>
  C4 (as amended). Once an \<open>Update\<close> call finds the projectile strictly under the contact
  height (\<open>position.y > groundHeight - radius * PIXEL_SCALE\<close>) with speed at most 10, that
  call sets velocity and acceleration to exactly zero and \<open>position.y\<close> to exactly the
  contact height, and after every further sequence of \<open>Update\<close> calls, whatever their
  \<open>deltaTime\<close>, velocity and acceleration are still exactly zero and \<open>position.y\<close> is still
  exactly the contact height.
\<close>

theorem Update_rest_is_idempotent:
  assumes under: "y (position (transform s)) > groundHeight s - radius s * PIXEL_SCALE e"
    and slow: "GetLength (velocity (transform s)) \<le> 10"
    and ret: "Update e now deltaTime s = Inr s1"
  shows "velocity (transform s1) = \<lparr>x = 0, y = 0\<rparr>
    \<and> acceleration (transform s1) = \<lparr>x = 0, y = 0\<rparr>
    \<and> y (position (transform s1)) = groundHeight s - radius s * PIXEL_SCALE e
    \<and> (\<forall>fs s2. updates e s1 fs = Inr s2 \<longrightarrow>
          velocity (transform s2) = \<lparr>x = 0, y = 0\<rparr>
          \<and> acceleration (transform s2) = \<lparr>x = 0, y = 0\<rparr>
          \<and> y (position (transform s2)) = groundHeight s - radius s * PIXEL_SCALE e)"
proof -
  from Update_under_transform [OF under ret] slow
  have tr: "transform s1 = transform (stop_movement e s)" by simp
  have gh: "groundHeight s1 = groundHeight s" "radius s1 = radius s"
    using Update_config [OF ret] by simp_all
  have r1: "at_rest e s1"
    by (simp add: at_rest_def tr gh stop_movement_def Let_def)
  have "at_rest e s2 \<and> groundHeight s2 = groundHeight s1 \<and> radius s2 = radius s1"
    if "updates e s1 fs = Inr s2" for fs s2
    using updates_keep_rest [OF r1 that] .
  with r1 gh show ?thesis
    by (simp add: at_rest_def vec_zero_def)
qed

theorem Update_rest_is_idempotent_witness:
  "y (position (transform slow_ball)) > groundHeight slow_ball - radius slow_ball * PIXEL_SCALE env0
   \<and> GetLength (velocity (transform slow_ball)) \<le> 10
   \<and> Update env0 1500000000 (1 / 50) slow_ball = Inr slow_ball_rest
   \<and> velocity (transform slow_ball_rest) = \<lparr>x = 0, y = 0\<rparr>
   \<and> acceleration (transform slow_ball_rest) = \<lparr>x = 0, y = 0\<rparr>
   \<and> y (position (transform slow_ball_rest)) = 99
   \<and> updates env0 slow_ball_rest
        [\<lparr>frameShow = True, frameNow = 1520000000, frameDelta = 1 / 50\<rparr>,
         \<lparr>frameShow = True, frameNow = 1620000000, frameDelta = 1 / 10\<rparr>]
       = Inr (slow_ball_rest\<lparr>showTrajectory := True, trajectoryAlpha := 3 / 25\<rparr>)
   \<and> velocity (transform (slow_ball_rest\<lparr>showTrajectory := True, trajectoryAlpha := 3 / 25\<rparr>))
       = \<lparr>x = 0, y = 0\<rparr>
   \<and> acceleration (transform (slow_ball_rest\<lparr>showTrajectory := True, trajectoryAlpha := 3 / 25\<rparr>))
       = \<lparr>x = 0, y = 0\<rparr>
   \<and> y (position (transform (slow_ball_rest\<lparr>showTrajectory := True, trajectoryAlpha := 3 / 25\<rparr>)))
       = 99"
proof -
  have under: "y (position (transform slow_ball))
                 > groundHeight slow_ball - radius slow_ball * PIXEL_SCALE env0"
    by (simp add: slow_ball_def model_defs)
  have slow: "GetLength (velocity (transform slow_ball)) \<le> 10"
    by (simp add: slow_ball_def model_defs sqrt_25)
  have vals: "groundHeight slow_ball = 100" "radius slow_ball = 1" "PIXEL_SCALE env0 = 1"
    by (simp_all add: slow_ball_def model_defs)
  have run: "updates env0 slow_ball_rest
        [\<lparr>frameShow = True, frameNow = 1520000000, frameDelta = 1 / 50\<rparr>,
         \<lparr>frameShow = True, frameNow = 1620000000, frameDelta = 1 / 10\<rparr>]
       = Inr (slow_ball_rest\<lparr>showTrajectory := True, trajectoryAlpha := 3 / 25\<rparr>)"
    by (simp add: slow_ball_rest_def slow_ball_def model_defs)
  from Update_rest_is_idempotent [OF under slow Update_slow_ball] vals run
  have "velocity (transform slow_ball_rest) = \<lparr>x = 0, y = 0\<rparr>
   \<and> acceleration (transform slow_ball_rest) = \<lparr>x = 0, y = 0\<rparr>
   \<and> y (position (transform slow_ball_rest)) = 99
   \<and> velocity (transform (slow_ball_rest\<lparr>showTrajectory := True, trajectoryAlpha := 3 / 25\<rparr>))
       = \<lparr>x = 0, y = 0\<rparr>
   \<and> acceleration (transform (slow_ball_rest\<lparr>showTrajectory := True, trajectoryAlpha := 3 / 25\<rparr>))
       = \<lparr>x = 0, y = 0\<rparr>
   \<and> y (position (transform (slow_ball_rest\<lparr>showTrajectory := True, trajectoryAlpha := 3 / 25\<rparr>)))
       = 99"
    by simp
  with under slow Update_slow_ball run show ?thesis
    by simp
qed

text \<open>
  The claim as the spec states it includes a call that finds the projectile exactly on the
  contact height. The ball constructed there moves at speed 3, and \<open>Update\<close> leaves its
  velocity and its acceleration as they were.
\<close>

theorem no_rest_on_contact_height:
  "y (position (transform ball_on_contact))
     = groundHeight ball_on_contact - radius ball_on_contact * PIXEL_SCALE env0
   \<and> GetLength (velocity (transform ball_on_contact)) = 3
   \<and> Update env0 33000000 (1 / 60) ball_on_contact = Inr ball_on_contact
   \<and> velocity (transform ball_on_contact) = \<lparr>x = 3, y = 0\<rparr>
   \<and> acceleration (transform ball_on_contact) = \<lparr>x = 0, y = 98\<rparr>"
  using Update_ball_on_contact [of 33000000]
  by (simp add: ball_on_contact_def model_defs sqrt_9)

subsection \<open>The landed flag and the trajectory snapshot\<close>

lemma Update_fast_ball_bounced:
  "Update env0 1520000000 (1 / 50) fast_ball_bounced = Inr fast_ball_airborne"
  by (simp add: fast_ball_airborne_def fast_ball_bounced_def fast_ball_def model_defs Let_def)

lemma Update_motion_landed:
  assumes "landed s"
  shows "landed (Update_motion e now dt s)"
    "endPos (Update_motion e now dt s) = endPos s"
    "endV (Update_motion e now dt s) = endV s"
    "endTime (Update_motion e now dt s) = endTime s"
    "airTime (Update_motion e now dt s) = airTime s"
    "controlPoint (Update_motion e now dt s) = controlPoint s"
  using assms
  by (simp_all add: Update_motion_def Let_def finalize_trajectory_def
      bounce_def stop_movement_def play_landing_particles_def)

lemma Update_landed:
  assumes "landed s" and "Update e now dt s = Inr s'"
  shows "landed s' \<and> airTime s' = airTime s \<and> endPos s' = endPos s \<and> endV s' = endV s
         \<and> controlPoint s' = controlPoint s \<and> endTime s' = endTime s"
proof -
  let ?a = "Update_alphas dt s"
  have d: "Update_destroy dt (Update_motion e now dt ?a) = Inr s'"
    using assms(2) by (simp add: Update_def)
  have "landed ?a" using assms(1) by simp
  from Update_motion_landed [OF this, of e now dt] Update_destroy_fields [OF d]
  show ?thesis by simp
qed

lemma updates_landed:
  assumes "landed s" and "updates e s fs = Inr s'"
  shows "landed s' \<and> airTime s' = airTime s \<and> endPos s' = endPos s \<and> endV s' = endV s
         \<and> controlPoint s' = controlPoint s \<and> endTime s' = endTime s"
  using assms
proof (induction fs arbitrary: s)
  case Nil
  then show ?case by simp
next
  case (Cons f fs)
  let ?s0 = "s\<lparr>showTrajectory := frameShow f\<rparr>"
  from Cons.prems(2) obtain s1 where
    s1: "Update e (frameNow f) (frameDelta f) ?s0 = Inr s1"
    and rest: "updates e s1 fs = Inr s'"
    by (auto split: sum.splits)
  have "landed ?s0" using Cons.prems(1) by simp
  from Update_landed [OF this s1]
  have one: "landed s1" "airTime s1 = airTime s" "endPos s1 = endPos s" "endV s1 = endV s"
    "controlPoint s1 = controlPoint s" "endTime s1 = endTime s"
    by simp_all
  from Cons.IH [OF one(1) rest] one(2-) show ?case by simp
qed

text \<open>
  C6. The constructor leaves \<open>landed\<close> as the class declaration initialises it, so an
  object whose declaration initialises it to false starts with \<open>landed\<close> false. Once
  \<open>landed\<close> is true it is true after every \<open>Update\<close> call and after every sequence of
  them, and neither \<open>Destroy\<close> nor \<open>UpdateTrajectory\<close> writes it: no operation resets it,
  so the flag goes from false to true at most once.
\<close>

theorem landed_never_reset:
  "(\<not> landed members \<longrightarrow>
      \<not> landed (new_CannonBall e members now pm startPosition startVelocity predictedAirTime gh))
   \<and> (landed s \<longrightarrow> (\<forall>fs s'. updates e s fs = Inr s' \<longrightarrow> landed s'))
   \<and> (landed s \<longrightarrow> (\<forall>clock dt s'. Update e clock dt s = Inr s' \<longrightarrow> landed s'))
   \<and> landed (Destroy s) = landed s
   \<and> landed (UpdateTrajectory e now s) = landed s"
proof (intro conjI allI impI)
  assume "\<not> landed members"
  then show "\<not> landed (new_CannonBall e members now pm startPosition startVelocity predictedAirTime gh)"
    by (simp add: new_CannonBall_def)
next
  fix fs s' assume "landed s" and "updates e s fs = Inr s'"
  from updates_landed [OF this] show "landed s'" by simp
next
  fix clock dt s' assume "landed s" and "Update e clock dt s = Inr s'"
  from Update_landed [OF this] show "landed s'" by simp
next
  show "landed (Destroy s) = landed s" by (simp add: Destroy_def)
next
  show "landed (UpdateTrajectory e now s) = landed s" by (simp add: UpdateTrajectory_def)
qed

theorem landed_never_reset_witness:
  "\<not> landed members0
   \<and> \<not> landed (new_CannonBall env0 members0 0 [] \<lparr>x = 0, y = 99\<rparr> \<lparr>x = 3, y = 0\<rparr> 1 100)
   \<and> landed fast_ball_bounced
   \<and> updates env0 fast_ball_bounced
        [\<lparr>frameShow = False, frameNow = 1520000000, frameDelta = 1 / 50\<rparr>] = Inr fast_ball_airborne
   \<and> Update env0 1520000000 (1 / 50) fast_ball_bounced = Inr fast_ball_airborne
   \<and> landed fast_ball_airborne
   \<and> landed (Destroy fast_ball_bounced)
   \<and> landed (UpdateTrajectory env0 1520000000 fast_ball_bounced)"
proof -
  have fresh: "\<not> landed members0"
    by (simp add: members0_def)
  have l: "landed fast_ball_bounced"
    by (simp add: fast_ball_bounced_def)
  have same: "fast_ball_bounced\<lparr>showTrajectory := False\<rparr> = fast_ball_bounced"
    by (simp add: fast_ball_bounced_def fast_ball_def model_defs)
  have run: "updates env0 fast_ball_bounced
        [\<lparr>frameShow = False, frameNow = 1520000000, frameDelta = 1 / 50\<rparr>] = Inr fast_ball_airborne"
    by (simp add: same Update_fast_ball_bounced)
  from landed_never_reset [where members = members0 and e = env0 and now = 0 and pm = "[]"
      and startPosition = "\<lparr>x = 0, y = 99\<rparr>" and startVelocity = "\<lparr>x = 3, y = 0\<rparr>"
      and predictedAirTime = 1 and gh = 100 and s = fast_ball_bounced]
    fresh l Update_fast_ball_bounced
  have a: "\<not> landed (new_CannonBall env0 members0 0 [] \<lparr>x = 0, y = 99\<rparr> \<lparr>x = 3, y = 0\<rparr> 1 100)"
    and b: "landed fast_ball_airborne"
    and c: "landed (Destroy fast_ball_bounced)"
    by blast+
  from landed_never_reset [where e = env0 and now = 1520000000 and s = fast_ball_bounced] l
  have d: "landed (UpdateTrajectory env0 1520000000 fast_ball_bounced)"
    by simp
  from fresh l run Update_fast_ball_bounced a b c d show ?thesis
    by simp
qed

text \<open>
  C8. Once \<open>landed\<close> is true, no \<open>Update\<close> call and no sequence of \<open>Update\<close> calls, whatever
  their \<open>deltaTime\<close> and whether the projectile is in the air again or not, changes
  \<open>airTime\<close>, \<open>endPos\<close>, \<open>endV\<close> (the end velocity) or \<open>controlPoint\<close>.
\<close>

theorem snapshot_frozen_once_landed:
  assumes "landed s"
  shows "(\<forall>now dt s'. Update e now dt s = Inr s' \<longrightarrow>
            airTime s' = airTime s \<and> endPos s' = endPos s \<and> endV s' = endV s
            \<and> controlPoint s' = controlPoint s)
       \<and> (\<forall>fs s'. updates e s fs = Inr s' \<longrightarrow>
            airTime s' = airTime s \<and> endPos s' = endPos s \<and> endV s' = endV s
            \<and> controlPoint s' = controlPoint s)"
proof (intro conjI allI impI)
  fix now dt s' assume "Update e now dt s = Inr s'"
  from Update_landed [OF assms this]
  show "airTime s' = airTime s" "endPos s' = endPos s" "endV s' = endV s"
    "controlPoint s' = controlPoint s" by simp_all
next
  fix fs s' assume "updates e s fs = Inr s'"
  from updates_landed [OF assms this]
  show "airTime s' = airTime s" "endPos s' = endPos s" "endV s' = endV s"
    "controlPoint s' = controlPoint s" by simp_all
qed

theorem snapshot_frozen_once_landed_witness:
  "landed fast_ball_bounced
   \<and> y (position (transform fast_ball_bounced))
       < groundHeight fast_ball_bounced - radius fast_ball_bounced * PIXEL_SCALE env0
   \<and> Update env0 1520000000 (1 / 50) fast_ball_bounced = Inr fast_ball_airborne
   \<and> position (transform fast_ball_airborne) \<noteq> position (transform fast_ball_bounced)
   \<and> airTime fast_ball_airborne = 1.5 \<and> airTime fast_ball_bounced = 1.5
   \<and> endPos fast_ball_airborne = \<lparr>x = 24, y = 99.5\<rparr>
   \<and> endPos fast_ball_bounced = \<lparr>x = 24, y = 99.5\<rparr>
   \<and> endV fast_ball_airborne = endV fast_ball_bounced
   \<and> controlPoint fast_ball_airborne = controlPoint fast_ball_bounced"
proof -
  have l: "landed fast_ball_bounced"
    by (simp add: fast_ball_bounced_def)
  have before: "airTime fast_ball_bounced = 1.5" "endPos fast_ball_bounced = \<lparr>x = 24, y = 99.5\<rparr>"
    by (simp_all add: fast_ball_bounced_def)
  have air: "y (position (transform fast_ball_bounced))
       < groundHeight fast_ball_bounced - radius fast_ball_bounced * PIXEL_SCALE env0"
    "position (transform fast_ball_airborne) \<noteq> position (transform fast_ball_bounced)"
    by (simp_all add: fast_ball_airborne_def fast_ball_bounced_def fast_ball_def model_defs)
  from snapshot_frozen_once_landed [OF l, of env0] Update_fast_ball_bounced before
  have "airTime fast_ball_airborne = 1.5"
    "endPos fast_ball_airborne = \<lparr>x = 24, y = 99.5\<rparr>"
    "endV fast_ball_airborne = endV fast_ball_bounced"
    "controlPoint fast_ball_airborne = controlPoint fast_ball_bounced"
    by simp_all
  with l air before Update_fast_ball_bounced show ?thesis
    by simp
qed

subsection \<open>The trajectory's alpha\<close>

lemma Update_alphas_bounds:
  assumes "0 \<le> trajectoryAlpha s" "trajectoryAlpha s \<le> 1"
  shows "0 \<le> trajectoryAlpha (Update_alphas dt s) \<and> trajectoryAlpha (Update_alphas dt s) \<le> 1"
  using assms by (simp add: Update_alphas_def clamp_def)

lemma Update_alphas_rate:
  assumes "0 \<le> trajectoryAlpha s" "trajectoryAlpha s \<le> 1" "0 \<le> dt"
  shows "trajectoryAlpha (Update_alphas dt s) =
           (if showTrajectory s then min 1 (trajectoryAlpha s + dt)
            else max 0 (trajectoryAlpha s - dt))"
  using assms by (auto simp: Update_alphas_def clamp_def)

lemma Update_trajectoryAlpha:
  assumes "Update e now dt s = Inr s'"
  shows "trajectoryAlpha s' = trajectoryAlpha (Update_alphas dt s)"
proof -
  have d: "Update_destroy dt (Update_motion e now dt (Update_alphas dt s)) = Inr s'"
    using assms by (simp add: Update_def)
  from Update_destroy_fields(12) [OF d] show ?thesis by simp
qed

lemma updates_alpha_bounds:
  assumes "0 \<le> trajectoryAlpha s" "trajectoryAlpha s \<le> 1" "updates e s fs = Inr s'"
  shows "0 \<le> trajectoryAlpha s' \<and> trajectoryAlpha s' \<le> 1"
  using assms
proof (induction fs arbitrary: s)
  case Nil
  then show ?case by simp
next
  case (Cons f fs)
  let ?s0 = "s\<lparr>showTrajectory := frameShow f\<rparr>"
  from Cons.prems(3) obtain s1 where
    s1: "Update e (frameNow f) (frameDelta f) ?s0 = Inr s1"
    and rest: "updates e s1 fs = Inr s'"
    by (auto split: sum.splits)
  have "0 \<le> trajectoryAlpha ?s0" "trajectoryAlpha ?s0 \<le> 1"
    using Cons.prems(1,2) by simp_all
  from Update_alphas_bounds [OF this, of "frameDelta f"] Update_trajectoryAlpha [OF s1]
  have "0 \<le> trajectoryAlpha s1" "trajectoryAlpha s1 \<le> 1" by simp_all
  from Cons.IH [OF this rest] show ?case .
qed

text \<open>
  C7. From a \<open>trajectoryAlpha\<close> within [0, 1], every sequence of \<open>Update\<close> calls, with the
  flag \<open>showTrajectory\<close> set anew before each call, leaves \<open>trajectoryAlpha\<close> within [0, 1]
  (for any \<open>deltaTime\<close>, the non-negative ones included); and one \<open>Update\<close> with a
  non-negative \<open>deltaTime\<close> moves it by \<open>deltaTime\<close> towards 1 when \<open>showTrajectory\<close> is true
  and towards 0 when it is false, stopping at the bound.
\<close>

theorem trajectoryAlpha_stays_in_unit_interval:
  assumes "0 \<le> trajectoryAlpha s" and "trajectoryAlpha s \<le> 1"
  shows "(\<forall>fs s'. updates e s fs = Inr s' \<longrightarrow>
            0 \<le> trajectoryAlpha s' \<and> trajectoryAlpha s' \<le> 1)
    \<and> (\<forall>now dt s'. 0 \<le> dt \<longrightarrow> Update e now dt s = Inr s' \<longrightarrow>
          trajectoryAlpha s' = (if showTrajectory s then min 1 (trajectoryAlpha s + dt)
                                else max 0 (trajectoryAlpha s - dt)))"
proof (intro conjI allI impI)
  fix fs s' assume "updates e s fs = Inr s'"
  from updates_alpha_bounds [OF assms this]
  show "0 \<le> trajectoryAlpha s'" "trajectoryAlpha s' \<le> 1" by simp_all
next
  fix now dt s' assume "0 \<le> dt" and "Update e now dt s = Inr s'"
  from Update_trajectoryAlpha [OF this(2)] Update_alphas_rate [OF assms this(1)]
  show "trajectoryAlpha s' = (if showTrajectory s then min 1 (trajectoryAlpha s + dt)
                                else max 0 (trajectoryAlpha s - dt))" by simp
qed

theorem trajectoryAlpha_stays_in_unit_interval_witness:
  "trajectoryAlpha ball_on_contact = 0
   \<and> updates env0 ball_on_contact
        [\<lparr>frameShow = True, frameNow = 0, frameDelta = 0.4\<rparr>,
         \<lparr>frameShow = True, frameNow = 400000000, frameDelta = 0.7\<rparr>,
         \<lparr>frameShow = False, frameNow = 1100000000, frameDelta = 0.3\<rparr>]
       = Inr (ball_on_contact\<lparr>showTrajectory := False, trajectoryAlpha := 0.7\<rparr>)
   \<and> 0 \<le> trajectoryAlpha (ball_on_contact\<lparr>showTrajectory := False, trajectoryAlpha := 0.7\<rparr>)
   \<and> trajectoryAlpha (ball_on_contact\<lparr>showTrajectory := False, trajectoryAlpha := 0.7\<rparr>) \<le> 1
   \<and> Update env0 0 0.4 (ball_on_contact\<lparr>showTrajectory := True\<rparr>)
       = Inr (ball_on_contact\<lparr>showTrajectory := True, trajectoryAlpha := 0.4\<rparr>)
   \<and> trajectoryAlpha (ball_on_contact\<lparr>showTrajectory := True, trajectoryAlpha := 0.4\<rparr>)
       = min 1 (trajectoryAlpha (ball_on_contact\<lparr>showTrajectory := True\<rparr>) + 0.4)"
proof -
  let ?shown = "ball_on_contact\<lparr>showTrajectory := True\<rparr>"
  have a0: "trajectoryAlpha ball_on_contact = 0"
    by (simp add: ball_on_contact_def model_defs)
  have run: "updates env0 ball_on_contact
        [\<lparr>frameShow = True, frameNow = 0, frameDelta = 0.4\<rparr>,
         \<lparr>frameShow = True, frameNow = 400000000, frameDelta = 0.7\<rparr>,
         \<lparr>frameShow = False, frameNow = 1100000000, frameDelta = 0.3\<rparr>]
       = Inr (ball_on_contact\<lparr>showTrajectory := False, trajectoryAlpha := 0.7\<rparr>)"
    by (simp add: ball_on_contact_def model_defs)
  have one: "Update env0 0 0.4 ?shown
               = Inr (ball_on_contact\<lparr>showTrajectory := True, trajectoryAlpha := 0.4\<rparr>)"
    by (simp add: ball_on_contact_def model_defs)
  have lo: "0 \<le> trajectoryAlpha ball_on_contact" and hi: "trajectoryAlpha ball_on_contact \<le> 1"
    using a0 by simp_all
  have lo': "0 \<le> trajectoryAlpha ?shown" and hi': "trajectoryAlpha ?shown \<le> 1"
    using a0 by simp_all
  from trajectoryAlpha_stays_in_unit_interval [OF lo hi, of env0] run
  have bounds:
    "0 \<le> trajectoryAlpha (ball_on_contact\<lparr>showTrajectory := False, trajectoryAlpha := 0.7\<rparr>)
     \<and> trajectoryAlpha (ball_on_contact\<lparr>showTrajectory := False, trajectoryAlpha := 0.7\<rparr>) \<le> 1"
    by blast
  have dt: "(0::real) \<le> 0.4" by simp
  from trajectoryAlpha_stays_in_unit_interval [OF lo' hi', of env0] dt one
  have "trajectoryAlpha (ball_on_contact\<lparr>showTrajectory := True, trajectoryAlpha := 0.4\<rparr>)
          = (if showTrajectory ?shown then min 1 (trajectoryAlpha ?shown + 0.4)
             else max 0 (trajectoryAlpha ?shown - 0.4))"
    by blast
  moreover have "showTrajectory ?shown = True"
    by simp
  ultimately have rate:
    "trajectoryAlpha (ball_on_contact\<lparr>showTrajectory := True, trajectoryAlpha := 0.4\<rparr>)
       = min 1 (trajectoryAlpha ?shown + 0.4)"
    by (simp only: if_True)
  from a0 run bounds one rate show ?thesis
    by blast
qed

subsection \<open>The acceleration\<close>

lemma Update_sunk_ball: "Update env0 20000000 (1 / 50) sunk_ball = Inr sunk_ball_rest"
  by (simp add: sunk_ball_rest_def sunk_ball_def model_defs Let_def sqrt_25)

lemma Update_motion_acceleration:
  "acceleration (transform (Update_motion e now dt s)) = acceleration (transform s)
   \<or> acceleration (transform (Update_motion e now dt s)) = \<lparr>x = 0, y = 0\<rparr>"
  by (simp add: Update_motion_def Let_def finalize_trajectory_def UpdateTrajectory_def
      bounce_def stop_movement_def play_landing_particles_def Transform_Update_def vec_zero_def)

lemma Update_acceleration:
  assumes "Update e now dt s = Inr s'"
  shows "acceleration (transform s') = acceleration (transform s)
         \<or> acceleration (transform s') = \<lparr>x = 0, y = 0\<rparr>"
proof -
  let ?a = "Update_alphas dt s"
  have d: "Update_destroy dt (Update_motion e now dt ?a) = Inr s'"
    using assms by (simp add: Update_def)
  from Update_motion_acceleration [of e now dt ?a] Update_destroy_fields(1) [OF d]
  show ?thesis by simp
qed

text \<open>
  C10. In every reachable state of a projectile the acceleration is exactly
  \<open>{0, GRAVITY}\<close>, as the constructor sets it, or exactly \<open>{0, 0}\<close>, as the rest branch
  sets it; its horizontal component is zero. \<open>Update\<close>, \<open>Destroy\<close>, \<open>UpdateTrajectory\<close> and
  the host's writes to \<open>showTrajectory\<close> keep this: no drag is added to the acceleration.
\<close>

theorem acceleration_gravity_or_zero:
  assumes "reachable e s"
  shows "(acceleration (transform s) = \<lparr>x = 0, y = GRAVITY e\<rparr>
          \<or> acceleration (transform s) = \<lparr>x = 0, y = 0\<rparr>)
         \<and> x (acceleration (transform s)) = 0"
proof -
  have "acceleration (transform s) = \<lparr>x = 0, y = GRAVITY e\<rparr>
          \<or> acceleration (transform s) = \<lparr>x = 0, y = 0\<rparr>"
    using assms
  proof (induction rule: reachable.induct)
    case (constructed members now pm startPosition startVelocity predictedAirTime gh)
    show ?case by (simp add: new_CannonBall_def)
  next
    case (updated s now deltaTime s')
    from Update_acceleration [OF updated.hyps(2)] updated.IH show ?case by auto
  next
    case (destroyed s)
    then show ?case by (simp add: Destroy_def)
  next
    case (trajectory s now)
    then show ?case by (simp add: UpdateTrajectory_def)
  next
    case (toggled s shown)
    then show ?case by simp
  qed
  then show ?thesis by auto
qed

theorem acceleration_gravity_or_zero_witness:
  "reachable env0 sunk_ball
   \<and> acceleration (transform sunk_ball) = \<lparr>x = 0, y = GRAVITY env0\<rparr>
   \<and> reachable env0 sunk_ball_rest
   \<and> acceleration (transform sunk_ball_rest) = \<lparr>x = 0, y = 0\<rparr>
   \<and> reachable env0 (Destroy sunk_ball_rest)
   \<and> x (acceleration (transform (Destroy sunk_ball_rest))) = 0"
proof -
  have r0: "reachable env0 sunk_ball"
    unfolding sunk_ball_def by (rule reachable.constructed)
  from r0 Update_sunk_ball have r1: "reachable env0 sunk_ball_rest"
    by (rule reachable.updated)
  then have r2: "reachable env0 (Destroy sunk_ball_rest)"
    by (rule reachable.destroyed)
  have vals: "acceleration (transform sunk_ball) = \<lparr>x = 0, y = GRAVITY env0\<rparr>"
    "acceleration (transform sunk_ball_rest) = \<lparr>x = 0, y = 0\<rparr>"
    by (simp_all add: sunk_ball_rest_def sunk_ball_def model_defs)
  from acceleration_gravity_or_zero [OF r2]
  have "x (acceleration (transform (Destroy sunk_ball_rest))) = 0"
    by simp
  with r0 r1 r2 vals show ?thesis
    by simp
qed

subsection \<open>Drag\<close>




subsection \<open>The destroy timer\<close>

text \<open>
  \<open>Destroy\<close> writes \<open>destroyTimer\<close> and nothing else, and while the fade is active a call of
  \<open>Update\<close> that returns has subtracted \<open>deltaTime\<close> from the timer and set the alpha channel
  to the truncated \<open>255 * destroyTimer / destroyDuration\<close>.
\<close>

lemma Destroy_frame: "Destroy s = s\<lparr>destroyTimer := destroyDuration s\<rparr>"
  by (simp add: Destroy_def)

lemma Update_fade_step:
  assumes "0 \<le> destroyTimer s" and "destroyTimer s \<le> destroyDuration s"
    and "Update e now dt s = Inr s'"
  shows "destroyTimer s' = destroyTimer s - dt
    \<and> a (color s') = word_of_int (float_trunc (255 * ((destroyTimer s - dt) / destroyDuration s)))
    \<and> 0 \<le> float_trunc (255 * ((destroyTimer s - dt) / destroyDuration s))
    \<and> float_trunc (255 * ((destroyTimer s - dt) / destroyDuration s)) \<le> 255"
proof -
  let ?m = "Update_motion e now dt (Update_alphas dt s)"
  have d: "Update_destroy dt ?m = Inr s'"
    using assms(3) by (simp add: Update_def)
  have "0 \<le> destroyTimer ?m" "destroyTimer ?m \<le> destroyDuration ?m"
    "destroyTimer ?m = destroyTimer s" "destroyDuration ?m = destroyDuration s"
    using assms(1,2) by simp_all
  with d show ?thesis
    by (auto simp: Update_destroy_def float_to_uchar_def Let_def split: if_splits sum.splits)
qed

text \<open>
  A fade that started above zero and is stepped past zero by more than
  \<open>destroyDuration / 255\<close> converts a value of -1 or less to \<^verbatim>\<open>unsigned char\<close>.
\<close>

lemma Update_fade_overshoot:
  assumes "0 \<le> destroyTimer s" and "destroyTimer s \<le> destroyDuration s"
    and "255 * ((destroyTimer s - dt) / destroyDuration s) \<le> - 1"
  shows "Update e now dt s = Inl FloatToUCharOutOfRange"
proof -
  let ?m = "Update_motion e now dt (Update_alphas dt s)"
  let ?v = "255 * ((destroyTimer s - dt) / destroyDuration s)"
  from assms(3) have "\<lceil>?v\<rceil> \<le> - 1"
    by (simp add: ceiling_le_iff)
  with assms(3) have "float_trunc ?v < 0"
    by (simp add: float_trunc_def)
  then have "float_to_uchar ?v = Inl FloatToUCharOutOfRange"
    by (simp add: float_to_uchar_def)
  moreover have "0 \<le> destroyTimer ?m" "destroyTimer ?m \<le> destroyDuration ?m"
    "destroyTimer ?m = destroyTimer s" "destroyDuration ?m = destroyDuration s"
    using assms(1,2) by simp_all
  ultimately show ?thesis
    by (simp add: Update_def Update_destroy_def Let_def)
qed

text \<open>
  C5, at the input where the code leaves the claim. With \<open>destroyDuration = 1\<close>, \<open>Destroy\<close>
  sets the timer to 1 and changes nothing else, and two \<open>Update\<close> calls of 0.25 s, summing
  to 0.5 s, leave the alpha at 191 and then at 127. From there a call of 0.75 s (1.25 s in
  all) takes the timer to -0.25 and converts -63.75 to \<^verbatim>\<open>unsigned char\<close>, which is
  undefined and is not the 0 of the claim. A call of 0.5 s instead (1 s in all) leaves the
  timer at 0 and the alpha at 0, but the fade is then still active, and the next frame of
  1/64 s converts -3.984375. All the numbers are binary fractions, exact as \<^verbatim>\<open>float\<close>.
\<close>

theorem destroy_fade_overshoots_zero:
  "destroyDuration ball_on_contact = 1
   \<and> Destroy ball_on_contact = fading_ball 1 255
   \<and> Update env0 0 (1 / 4) (fading_ball 1 255) = Inr (fading_ball (3 / 4) 191)
   \<and> Update env0 0 (1 / 4) (fading_ball (3 / 4) 191) = Inr (fading_ball (1 / 2) 127)
   \<and> Update env0 0 (3 / 4) (fading_ball (1 / 2) 127) = Inl FloatToUCharOutOfRange
   \<and> Update env0 0 (1 / 2) (fading_ball (1 / 2) 127) = Inr (fading_ball 0 0)
   \<and> Update env0 0 (1 / 64) (fading_ball 0 0) = Inl FloatToUCharOutOfRange"
  by (simp add: fading_ball_def ball_on_contact_def model_defs WHITE_def Let_def)

end
